theory Spec2Isabelle
  imports Main "HOL-Library.Sublist"
begin

section \<open>Exceptions (exceptions.py)\<close>

text \<open>
  The exception classes of \<^verbatim>\<open>exceptions.py\<close>, together with the foreign exceptions the
  source catches by name: \<^verbatim>\<open>OutputParserException\<close> (langchain),
  \<^verbatim>\<open>WebSocketDisconnect\<close> (fastapi) and \<^verbatim>\<open>RetryError\<close> (tenacity, carrying the exception
  of the last attempt). \<open>OtherException\<close> stands for any other subclass of
  \<^verbatim>\<open>Exception\<close>. The type holds the subclasses of \<^verbatim>\<open>Exception\<close>, which is what the
  source's \<^verbatim>\<open>except Exception\<close> clauses catch; the exit signals that derive from
  \<^verbatim>\<open>BaseException\<close> alone (task cancellation, interpreter shutdown) are outside it.
\<close>

datatype exn =
    ValidationError string
  | AgentError string
  | TimeoutError string
  | ConnectionError string
  | SearchError string
  | RateLimitError string
  | OutputParserException string
  | WebSocketDisconnect
  | RetryError exn
  | OtherException string

text \<open>\<^verbatim>\<open>str(e)\<close>: the message the exception was built with.\<close>

fun exn_str :: "exn \<Rightarrow> string" where
  "exn_str (ValidationError m) = m"
| "exn_str (AgentError m) = m"
| "exn_str (TimeoutError m) = m"
| "exn_str (ConnectionError m) = m"
| "exn_str (SearchError m) = m"
| "exn_str (RateLimitError m) = m"
| "exn_str (OutputParserException m) = m"
| "exn_str WebSocketDisconnect = []"
| "exn_str (RetryError e) = ''RetryError''"
| "exn_str (OtherException m) = m"

text \<open>
  \<^verbatim>\<open>isinstance(e, (SearchError, RateLimitError))\<close>: \<^verbatim>\<open>RateLimitError\<close> is a subclass of
  \<^verbatim>\<open>SearchError\<close>; no other class of \<^verbatim>\<open>exceptions.py\<close> is.
\<close>

fun is_SearchError :: "exn \<Rightarrow> bool" where
  "is_SearchError (SearchError _) = True"
| "is_SearchError (RateLimitError _) = True"
| "is_SearchError _ = False"

text \<open>\<^verbatim>\<open>isinstance(e, (ValidationError, AgentError, TimeoutError))\<close> (agent_service.py:168).\<close>

fun is_classified :: "exn \<Rightarrow> bool" where
  "is_classified (ValidationError _) = True"
| "is_classified (AgentError _) = True"
| "is_classified (TimeoutError _) = True"
| "is_classified _ = False"


section \<open>Python strings\<close>

text \<open>
  A Python \<^verbatim>\<open>str\<close> is a sequence of code points and \<^verbatim>\<open>len\<close> counts them. The model
  covers the texts whose code points lie below 256, one \<^typ>\<open>char\<close> per code point.
  \<open>py_isspace\<close> is the set \<^verbatim>\<open>str.strip()\<close> removes in that range, \<open>py_lower_char\<close> is
  \<^verbatim>\<open>str.lower()\<close> there (A-Z and the Latin-1 capitals, U+00D7 excepted, move up by 32).
\<close>

definition py_isspace :: "char \<Rightarrow> bool" where
  "py_isspace c =
     (let n = (of_char c :: nat)
      in (9 \<le> n \<and> n \<le> 13) \<or> (28 \<le> n \<and> n \<le> 32) \<or> n = 133 \<or> n = 160)"

definition py_strip :: "string \<Rightarrow> string" where
  "py_strip s = rev (dropWhile py_isspace (rev (dropWhile py_isspace s)))"

definition py_lower_char :: "char \<Rightarrow> char" where
  "py_lower_char c =
     (let n = (of_char c :: nat)
      in if (65 \<le> n \<and> n \<le> 90) \<or> (192 \<le> n \<and> n \<le> 222 \<and> n \<noteq> 215)
         then char_of (n + 32) else c)"

definition py_lower :: "string \<Rightarrow> string" where
  "py_lower s = map py_lower_char s"

text \<open>\<^verbatim>\<open>t in s\<close> on strings: \<open>t\<close> occurs in \<open>s\<close> as a contiguous block.\<close>

fun py_in :: "string \<Rightarrow> string \<Rightarrow> bool" where
  "py_in t [] = (t = [])"
| "py_in t (c # s) = (prefix t (c # s) \<or> py_in t s)"


section \<open>Query validation (agent_service.py, models.py)\<close>

record UserQuery =
  query :: string
  session_id :: "string option"

definition forbidden_terms :: "string list" where
  "forbidden_terms = [''hack'', ''crack'', ''piracy'', ''illegal'']"

text \<open>
  \<^verbatim>\<open>PCBuildAgentService._validate_query\<close>: returns normally (\<open>Inr ()\<close>) or raises.
\<close>

definition validate_query :: "UserQuery \<Rightarrow> exn + unit" where
  "validate_query q =
     (if query q = [] \<or> length (py_strip (query q)) < 3
      then Inl (ValidationError ''Query must be at least 3 characters long'')
      else if length (query q) > 1000
      then Inl (ValidationError ''Query cannot exceed 1000 characters'')
      else if list_ex (\<lambda>term. py_in term (py_lower (query q))) forbidden_terms
      then Inl (ValidationError ''Query contains inappropriate content'')
      else Inr ())"


section \<open>Search tool (search_tool.py)\<close>

text \<open>
  Times are integers: clock readings (\<^verbatim>\<open>datetime.now()\<close>) and the rate limiter's delay in
  microseconds, the resolution of \<^verbatim>\<open>datetime\<close>; the waits of the retry decorator in
  seconds, as the decorator is configured.
\<close>

record RateLimiter =
  delay :: int
  last_request :: "int option"

text \<open>
  \<^verbatim>\<open>RateLimiter.wait_if_needed\<close> at clock reading \<open>now\<close>: the time slept and the limiter
  afterwards. \<^verbatim>\<open>last_request\<close> takes the reading made after the sleep.
\<close>

definition wait_if_needed :: "int \<Rightarrow> RateLimiter \<Rightarrow> int \<times> RateLimiter" where
  "wait_if_needed now rl =
     (let wait_time =
            (case last_request rl of
               None \<Rightarrow> 0
             | Some l \<Rightarrow> if now - l < delay rl then delay rl - (now - l) else 0)
      in (wait_time, rl\<lparr>last_request := Some (now + wait_time)\<rparr>))"

record SearchStats =
  total_searches :: int
  successful_searches :: int
  failed_searches :: int

record DDGSearchTool =
  rate_limiter :: RateLimiter
  search_stats :: SearchStats

text \<open>\<^verbatim>\<open>DDGSearchTool.__init__\<close> with \<^verbatim>\<open>settings.search_rate_limit_delay\<close> = 1.0 s.\<close>

definition DDGSearchTool_init :: DDGSearchTool where
  "DDGSearchTool_init =
     \<lparr>rate_limiter = \<lparr>delay = 1000000, last_request = None\<rparr>,
      search_stats = \<lparr>total_searches = 0, successful_searches = 0, failed_searches = 0\<rparr>\<rparr>"

text \<open>A record of the provider: a dict in which each of the three keys may be missing.\<close>

record raw_hit =
  hit_title :: "string option"
  hit_body :: "string option"
  hit_href :: "string option"

record SearchResult =
  title :: string
  body :: string
  url :: string

text \<open>What \<^verbatim>\<open>ddgs.text(...)\<close> does inside \<^verbatim>\<open>_perform_search\<close>.\<close>

datatype provider_outcome = Hits "raw_hit list" | ProviderRaises exn

definition perform_search :: "provider_outcome \<Rightarrow> exn + SearchResult list" where
  "perform_search p =
     (case p of
        Hits rs \<Rightarrow>
          Inr (map (\<lambda>r. \<lparr>title = (case hit_title r of Some t \<Rightarrow> t | None \<Rightarrow> ''No title''),
                         body = (case hit_body r of Some b \<Rightarrow> b | None \<Rightarrow> ''No description''),
                         url = (case hit_href r of Some u \<Rightarrow> u | None \<Rightarrow> ''#'')\<rparr>) rs)
      | ProviderRaises e \<Rightarrow> Inl (SearchError (''DuckDuckGo search failed: '' @ exn_str e)))"

text \<open>
  The awaited executor call of \<^verbatim>\<open>search_async\<close>: \<^verbatim>\<open>_perform_search\<close> completes within
  \<^verbatim>\<open>settings.search_timeout\<close>, or \<^verbatim>\<open>asyncio.wait_for\<close> gives up first.
\<close>

datatype exec_outcome = Completed provider_outcome | TimedOut

text \<open>
  One run of the body of \<^verbatim>\<open>search_async\<close> (one attempt of the decorated coroutine), started
  at clock reading \<open>now\<close>, the executor call taking \<open>dur\<close>: the result, the clock afterwards
  and the tool afterwards.
\<close>

definition search_async_body ::
  "exec_outcome \<Rightarrow> int \<Rightarrow> int \<Rightarrow> DDGSearchTool \<Rightarrow> (exn + SearchResult list) \<times> int \<times> DDGSearchTool"
where
  "search_async_body out dur now srch =
     (let (slept, rl) = wait_if_needed now (rate_limiter srch);
          st = search_stats srch;
          st1 = st\<lparr>total_searches := total_searches st + 1\<rparr>;
          now' = now + slept + dur
      in case out of
           TimedOut \<Rightarrow>
             (Inl (TimeoutError ''Search timed out after 30 seconds''), now',
              srch\<lparr>rate_limiter := rl,
                   search_stats := st1\<lparr>failed_searches := failed_searches st1 + 1\<rparr>\<rparr>)
         | Completed p \<Rightarrow>
             (case perform_search p of
                Inr results \<Rightarrow>
                  (Inr results, now',
                   srch\<lparr>rate_limiter := rl,
                        search_stats := st1\<lparr>successful_searches := successful_searches st1 + 1\<rparr>\<rparr>)
              | Inl e \<Rightarrow>
                  (Inl (SearchError (''Search failed: '' @ exn_str e)), now',
                   srch\<lparr>rate_limiter := rl,
                        search_stats := st1\<lparr>failed_searches := failed_searches st1 + 1\<rparr>\<rparr>)))"

text \<open>
  The decorator \<^verbatim>\<open>@retry(stop=stop_after_attempt(3), wait=wait_exponential(multiplier=1,
  min=4, max=10), retry=retry_if_exception_type((SearchError, RateLimitError)))\<close> of the
  tenacity library, attempt numbers counted from 1:
  \<^item> \<open>stop_after_attempt m n\<close>: no further attempt after attempt \<open>n\<close>;
  \<^item> \<open>wait_exponential multiplier mn mx n\<close>: the seconds slept after attempt \<open>n\<close>,
    \<^verbatim>\<open>max(max(0, min), min(multiplier * 2 ** (n - 1), max))\<close>;
  \<^item> an attempt that raises an exception outside the retried classes re-raises it at once;
  \<^item> when the stop condition holds after a retried exception, \<^verbatim>\<open>RetryError\<close> is raised.
\<close>

definition stop_after_attempt :: "nat \<Rightarrow> nat \<Rightarrow> bool" where
  "stop_after_attempt m n = (m \<le> n)"

definition wait_exponential :: "int \<Rightarrow> int \<Rightarrow> int \<Rightarrow> nat \<Rightarrow> int" where
  "wait_exponential multiplier mn mx n = max (max 0 mn) (min (multiplier * 2 ^ (n - 1)) mx)"

record search_call =
  result :: "exn + SearchResult list"
  attempts :: nat
  waits :: "int list"
  clock :: int
  tool :: DDGSearchTool

text \<open>
  The decorated \<^verbatim>\<open>search_async\<close>, from attempt \<open>n\<close> on. \<open>env k\<close> is what the executor call
  of attempt \<open>k\<close> does and how long it takes; \<open>ws\<close> collects the waits slept so far.
\<close>

function search_async_from ::
  "nat \<Rightarrow> (nat \<Rightarrow> exec_outcome \<times> int) \<Rightarrow> int \<Rightarrow> DDGSearchTool \<Rightarrow> int list \<Rightarrow> search_call"
where
  "search_async_from n env now srch ws =
     (case search_async_body (fst (env n)) (snd (env n)) now srch of
        (Inr results, now', srch') \<Rightarrow>
          \<lparr>result = Inr results, attempts = n, waits = ws, clock = now', tool = srch'\<rparr>
      | (Inl e, now', srch') \<Rightarrow>
          if \<not> is_SearchError e
          then \<lparr>result = Inl e, attempts = n, waits = ws, clock = now', tool = srch'\<rparr>
          else if stop_after_attempt 3 n
          then \<lparr>result = Inl (RetryError e), attempts = n, waits = ws, clock = now', tool = srch'\<rparr>
          else search_async_from (Suc n) env (now' + wait_exponential 1 4 10 n * 1000000) srch'
                 (ws @ [wait_exponential 1 4 10 n]))"
  by pat_completeness auto
termination
  by (relation "measure (\<lambda>(n, env, now, srch, ws). 3 - n)") (auto simp: stop_after_attempt_def)

declare search_async_from.simps [simp del]

definition search_async ::
  "(nat \<Rightarrow> exec_outcome \<times> int) \<Rightarrow> int \<Rightarrow> DDGSearchTool \<Rightarrow> search_call" where
  "search_async env now srch = search_async_from 1 env now srch []"

text \<open>
  The attempts that end in a retried error: the provider raises, which \<^verbatim>\<open>_perform_search\<close>
  and then \<^verbatim>\<open>search_async\<close> wrap into \<^verbatim>\<open>SearchError\<close>.
\<close>

fun fails_transient :: "exec_outcome \<Rightarrow> bool" where
  "fails_transient (Completed (ProviderRaises e)) = True"
| "fails_transient _ = False"

definition always_transient :: "nat \<Rightarrow> exec_outcome \<times> int" where
  "always_transient k = (Completed (ProviderRaises (RateLimitError ''rate limited'')), 0)"

definition always_timeout :: "nat \<Rightarrow> exec_outcome \<times> int" where
  "always_timeout k = (TimedOut, 30000000)"


text \<open>A sequence of calls of the decorated \<^verbatim>\<open>search_async\<close> on one tool.\<close>

fun search_calls :: "(nat \<Rightarrow> exec_outcome \<times> int) list \<Rightarrow> int \<Rightarrow> DDGSearchTool \<Rightarrow> DDGSearchTool" where
  "search_calls [] now srch = srch"
| "search_calls (env # envs) now srch =
     (let r = search_async env now srch in search_calls envs (clock r) (tool r))"

text \<open>
  \<^verbatim>\<open>DDGSearchTool.get_stats\<close> returns \<^verbatim>\<open>self._search_stats.copy()\<close>. As a value it is the
  counters; \<open>get_stats_ref\<close> is the same call on a store of dict objects, addresses being
  positions in the store: the tool holds the address \<open>stats_ref\<close> of its dict, the copy is
  a new object at the next free address, and \<open>dict_assign\<close> is a caller's write through a
  reference it holds.
\<close>

definition get_stats :: "DDGSearchTool \<Rightarrow> SearchStats" where
  "get_stats srch = search_stats srch"





section \<open>Agent service (agent_service.py)\<close>

text \<open>The field \<^verbatim>\<open>output\<close> is \<open>response_output\<close> here.\<close>

record AgentResponse =
  response_output :: string
  tokens_used :: "int option"
  processing_time :: "int option"
  search_results_count :: "int option"

text \<open>
  The reasoning engine is a collaborator; the model takes what it does as data.
  \<^item> \<open>create_outcome\<close>: the body of \<^verbatim>\<open>_create_agent\<close> runs through, or raises before the
    session's memory is looked up (building the LLM or the tool list), or raises after it
    (\<^verbatim>\<open>initialize_agent\<close>).
  \<^item> \<open>invoke_outcome\<close>: \<^verbatim>\<open>agent.invoke\<close> returns a dict, of which the model keeps the entry
    under \<^verbatim>\<open>"output"\<close> (absent, a string, or a value that is not a string), or raises.
\<close>

datatype create_outcome = Created | RaisesBeforeMemory exn | RaisesAfterMemory exn

datatype out_value = Str string | NonStr

datatype invoke_outcome = Returns "out_value option" | Raises exn

record PCBuildAgentService =
  search_tool :: DDGSearchTool
  memory_cache :: "string list"

definition PCBuildAgentService_init :: PCBuildAgentService where
  "PCBuildAgentService_init = \<lparr>search_tool = DDGSearchTool_init, memory_cache = []\<rparr>"

text \<open>
  \<^verbatim>\<open>_get_or_create_memory\<close>: the cache is a dict from session id to a memory object owned by
  the engine's library; the model keeps its keys, in insertion order.
\<close>

definition get_or_create_memory :: "string \<Rightarrow> PCBuildAgentService \<Rightarrow> PCBuildAgentService" where
  "get_or_create_memory sid svc =
     (if sid \<in> set (memory_cache svc) then svc
      else svc\<lparr>memory_cache := memory_cache svc @ [sid]\<rparr>)"

definition create_agent ::
  "create_outcome \<Rightarrow> string \<Rightarrow> PCBuildAgentService \<Rightarrow> (exn + unit) \<times> PCBuildAgentService" where
  "create_agent c sid svc =
     (case c of
        Created \<Rightarrow> (Inr (), get_or_create_memory sid svc)
      | RaisesBeforeMemory e \<Rightarrow>
          (Inl (AgentError (''Failed to create agent: '' @ exn_str e)), svc)
      | RaisesAfterMemory e \<Rightarrow>
          (Inl (AgentError (''Failed to create agent: '' @ exn_str e)),
           get_or_create_memory sid svc))"

definition apology :: string where
  "apology =
     ''I encountered an issue processing your request. Please try rephrasing your PC build question.''"

text \<open>\<^verbatim>\<open>_execute_agent\<close>: the first matching \<^verbatim>\<open>except\<close> clause wins.\<close>

fun execute_agent :: "invoke_outcome \<Rightarrow> exn + out_value option" where
  "execute_agent (Returns d) = Inr d"
| "execute_agent (Raises (OutputParserException m)) = Inr (Some (Str apology))"
| "execute_agent (Raises e) = Inl (AgentError (''Agent execution failed: '' @ exn_str e))"

text \<open>
  What happens around one call of \<^verbatim>\<open>process_query\<close>: how the agent is created, what the
  invocation does, whether \<^verbatim>\<open>asyncio.wait_for\<close> gives up after 300 s before the executor
  call is back, the calls of the search tool the engine makes meanwhile, and the two
  clock readings.
\<close>

record engine_run =
  creation :: create_outcome
  invocation :: invoke_outcome
  expired :: bool
  tool_calls :: "(nat \<Rightarrow> exec_outcome \<times> int) list"
  started :: int
  finished :: int

text \<open>The calls \<^verbatim>\<open>process_query\<close> makes towards the engine, in order.\<close>

datatype engine_call = CreateAgent string | InvokeEngine string

text \<open>The \<^verbatim>\<open>try\<close> block of \<^verbatim>\<open>process_query\<close>.\<close>

definition process_query_try ::
  "engine_run \<Rightarrow> UserQuery \<Rightarrow> string \<Rightarrow> PCBuildAgentService
     \<Rightarrow> (exn + AgentResponse) \<times> engine_call list \<times> PCBuildAgentService"
where
  "process_query_try w q sid svc =
     (case validate_query q of
        Inl e \<Rightarrow> (Inl e, [], svc)
      | Inr _ \<Rightarrow>
          (case create_agent (creation w) sid svc of
             (Inl e, svc1) \<Rightarrow> (Inl e, [CreateAgent sid], svc1)
           | (Inr _, svc1) \<Rightarrow>
               (let svc2 = svc1\<lparr>search_tool :=
                              search_calls (tool_calls w) (started w) (search_tool svc1)\<rparr>;
                    calls = [CreateAgent sid, InvokeEngine (query q)]
                in if expired w
                   then (Inl (TimeoutError ''Agent processing timed out after 5 minutes''),
                         calls, svc2)
                   else
                     (case execute_agent (invocation w) of
                        Inl e \<Rightarrow> (Inl e, calls, svc2)
                      | Inr res \<Rightarrow>
                          (case (case res of None \<Rightarrow> Str ''No response generated''
                                 | Some v \<Rightarrow> v) of
                             Str text \<Rightarrow>
                               (Inr \<lparr>response_output = text, tokens_used = None,
                                     processing_time = Some (finished w - started w),
                                     search_results_count =
                                       Some (successful_searches (get_stats (search_tool svc2)))\<rparr>,
                                calls, svc2)
                           | NonStr \<Rightarrow>
                               (Inl (OtherException ''output: Input should be a valid string''),
                                calls, svc2))))))"

text \<open>
  \<^verbatim>\<open>process_query\<close>: the \<^verbatim>\<open>except Exception\<close> clause re-raises the three classified errors
  and wraps every other exception into \<^verbatim>\<open>AgentError\<close>.
\<close>

definition process_query ::
  "engine_run \<Rightarrow> UserQuery \<Rightarrow> string \<Rightarrow> PCBuildAgentService
     \<Rightarrow> (exn + AgentResponse) \<times> engine_call list \<times> PCBuildAgentService"
where
  "process_query w q sid svc =
     (case process_query_try w q sid svc of
        (Inl e, calls, svc') \<Rightarrow>
          (Inl (if is_classified e then e
                else AgentError (''Query processing failed: '' @ exn_str e)), calls, svc')
      | (Inr response, calls, svc') \<Rightarrow> (Inr response, calls, svc'))"

definition quiet_run :: engine_run where
  "quiet_run = \<lparr>creation = Created, invocation = Returns (Some (Str ''ok'')), expired = False,
                tool_calls = [], started = 0, finished = 1\<rparr>"


definition parse_failure_run :: engine_run where
  "parse_failure_run =
     quiet_run\<lparr>invocation := Raises (OutputParserException ''Could not parse LLM output'')\<rparr>"

definition crash_run :: engine_run where
  "crash_run = quiet_run\<lparr>invocation := Raises (OtherException ''connection reset'')\<rparr>"

definition gaming_query :: UserQuery where
  "gaming_query = \<lparr>query = ''$800 gaming build'', session_id = None\<rparr>"

definition hackintosh_query :: UserQuery where
  "hackintosh_query = \<lparr>query = ''I want a Hackintosh build'', session_id = None\<rparr>"

definition firecracker_query :: UserQuery where
  "firecracker_query = \<lparr>query = ''a case red as a firecracker'', session_id = None\<rparr>"

section \<open>Messages (models.py)\<close>

datatype MessageType = QUERY | LOG | TOKEN | FINAL_OUTPUT | ERROR | HEARTBEAT | CONNECTION_STATUS

datatype meta_value = MStr string | MInt int

text \<open>
  \<^verbatim>\<open>WebSocketMessage\<close>; the field \<^verbatim>\<open>type\<close> is \<open>msg_type\<close> here. \<open>timestamp\<close> is the clock
  reading taken when the message is built.
\<close>

record WebSocketMessage =
  msg_type :: MessageType
  content :: string
  timestamp :: int
  metadata :: "(string \<times> meta_value) list option"


section \<open>Connection manager (connection_manager.py, config.py)\<close>

text \<open>
  A Python dict is an association list with distinct keys, in insertion order:
  assignment to a present key replaces its value in place, assignment to a new key
  appends, \<^verbatim>\<open>del\<close> removes the key.
\<close>

definition dict_has :: "'k \<Rightarrow> ('k \<times> 'v) list \<Rightarrow> bool" where
  "dict_has k d = (map_of d k \<noteq> None)"

fun dict_set :: "'k \<Rightarrow> 'v \<Rightarrow> ('k \<times> 'v) list \<Rightarrow> ('k \<times> 'v) list" where
  "dict_set k v [] = [(k, v)]"
| "dict_set k v (p # ps) = (if fst p = k then (k, v) # ps else p # dict_set k v ps)"

definition dict_del :: "'k \<Rightarrow> ('k \<times> 'v) list \<Rightarrow> ('k \<times> 'v) list" where
  "dict_del k d = filter (\<lambda>p. fst p \<noteq> k) d"

record conn_info =
  connected_at :: int
  last_activity :: int
  message_count :: int
  client_info :: "string option"

text \<open>
  A transport (\<^verbatim>\<open>WebSocket\<close>) is a handle, a number here; what the peer makes of a call on
  it is data of the model: a send goes through, or raises \<^verbatim>\<open>WebSocketDisconnect\<close>, or
  raises something else; a close goes through or raises. The calls made on transports
  and on the heartbeat task are collected as effects: \<open>SendText\<close> is a call of
  \<^verbatim>\<open>send_text\<close> that went through, \<open>SendFailed\<close> one that raised.
\<close>

datatype send_outcome = SendOk | SendDisconnect | SendRaises exn

datatype effect =
    Accept nat
  | Closed nat "int option"
  | CloseFailed nat
  | SendText nat WebSocketMessage
  | SendFailed nat WebSocketMessage
  | StartHeartbeat
  | CancelHeartbeat

record ConnectionManager =
  active_connections :: "(string \<times> nat) list"
  connection_info :: "(string \<times> conn_info) list"
  processing_connections :: "string set"
  heartbeat_task :: bool

definition ConnectionManager_init :: ConnectionManager where
  "ConnectionManager_init =
     \<lparr>active_connections = [], connection_info = [], processing_connections = {},
      heartbeat_task = False\<rparr>"


definition CONNECTION_TIMEOUT :: int where
  "CONNECTION_TIMEOUT = 300 * 1000000"

definition close_effect :: "nat \<Rightarrow> int option \<Rightarrow> exn option \<Rightarrow> effect" where
  "close_effect ws code close_error =
     (case close_error of None \<Rightarrow> Closed ws code | Some _ \<Rightarrow> CloseFailed ws)"

text \<open>
  \<^verbatim>\<open>ConnectionManager.disconnect\<close>. \<open>close_error\<close> is what \<^verbatim>\<open>websocket.close()\<close> raises, if
  anything. \<^verbatim>\<open>del self.connection_info[session_id]\<close> raises \<^verbatim>\<open>KeyError\<close> when the key is
  missing, after the connection has been deleted.
\<close>

definition disconnect ::
  "exn option \<Rightarrow> string \<Rightarrow> ConnectionManager \<Rightarrow> (exn + unit) \<times> effect list \<times> ConnectionManager"
where
  "disconnect close_error sid m =
     (case map_of (active_connections m) sid of
        None \<Rightarrow> (Inr (), [], m)
      | Some ws \<Rightarrow>
          (let m1 = m\<lparr>active_connections := dict_del sid (active_connections m)\<rparr>
           in if \<not> dict_has sid (connection_info m1)
              then (Inl (OtherException ''KeyError''), [close_effect ws None close_error], m1)
              else
                (let m2 = m1\<lparr>connection_info := dict_del sid (connection_info m1),
                              processing_connections := processing_connections m1 - {sid}\<rparr>
                 in if length (active_connections m2) = 0 \<and> heartbeat_task m2
                    then (Inr (), [close_effect ws None close_error, CancelHeartbeat],
                          m2\<lparr>heartbeat_task := False\<rparr>)
                    else (Inr (), [close_effect ws None close_error], m2))))"

text \<open>
  \<^verbatim>\<open>ConnectionManager._send_to_connection\<close>: \<open>out\<close> is what \<^verbatim>\<open>send_text\<close> does, \<open>now\<close> the
  clock reading stored as \<^verbatim>\<open>last_activity\<close> after a send that went through.
\<close>

definition send_to_connection ::
  "send_outcome \<Rightarrow> exn option \<Rightarrow> int \<Rightarrow> string \<Rightarrow> WebSocketMessage \<Rightarrow> ConnectionManager
     \<Rightarrow> (exn + unit) \<times> effect list \<times> ConnectionManager"
where
  "send_to_connection out close_error now sid msg m =
     (case map_of (active_connections m) sid of
        None \<Rightarrow> (Inl (ConnectionError (''Connection '' @ sid @ '' not found'')), [], m)
      | Some ws \<Rightarrow>
          (case out of
             SendOk \<Rightarrow>
               (Inr (), [SendText ws msg],
                (case map_of (connection_info m) sid of
                   None \<Rightarrow> m
                 | Some i \<Rightarrow>
                     m\<lparr>connection_info :=
                         dict_set sid (i\<lparr>last_activity := now,
                                          message_count := message_count i + 1\<rparr>)
                           (connection_info m)\<rparr>))
           | SendDisconnect \<Rightarrow>
               (case disconnect close_error sid m of
                  (Inl e, effs, m') \<Rightarrow> (Inl e, SendFailed ws msg # effs, m')
                | (Inr _, effs, m') \<Rightarrow> (Inl WebSocketDisconnect, SendFailed ws msg # effs, m'))
           | SendRaises e \<Rightarrow>
               (case disconnect close_error sid m of
                  (Inl e', effs, m') \<Rightarrow> (Inl e', SendFailed ws msg # effs, m')
                | (Inr _, effs, m') \<Rightarrow>
                    (Inl (ConnectionError (''Failed to send message: '' @ exn_str e)),
                     SendFailed ws msg # effs, m'))))"


definition is_processing :: "ConnectionManager \<Rightarrow> string \<Rightarrow> bool" where
  "is_processing m sid = (sid \<in> processing_connections m)"

definition set_processing :: "string \<Rightarrow> bool \<Rightarrow> ConnectionManager \<Rightarrow> ConnectionManager" where
  "set_processing sid processing m =
     (if processing then m\<lparr>processing_connections := insert sid (processing_connections m)\<rparr>
      else m\<lparr>processing_connections := processing_connections m - {sid}\<rparr>)"



text \<open>
  One round of \<^verbatim>\<open>_heartbeat_loop\<close>. \<open>sends sid\<close> is what the heartbeat send to \<open>sid\<close> does
  and the clock reading stored after it; \<open>scan\<close> is the clock reading of
  \<^verbatim>\<open>_cleanup_stale_connections\<close>. The sends are taken one session after the other, in the
  order of the snapshot of the keys; the exceptions of the tasks are dropped by
  \<^verbatim>\<open>gather(return_exceptions=True)\<close>, those of the cleanup by the loop's \<^verbatim>\<open>except\<close>.
\<close>

record cycle =
  sends :: "string \<Rightarrow> send_outcome \<times> int"
  built :: int
  scan :: int

definition send_heartbeat_to_connection ::
  "send_outcome \<Rightarrow> int \<Rightarrow> string \<Rightarrow> WebSocketMessage \<Rightarrow> ConnectionManager
     \<Rightarrow> effect list \<times> ConnectionManager"
where
  "send_heartbeat_to_connection out now sid msg m =
     (case send_to_connection out None now sid msg m of
        (Inr _, effs, m') \<Rightarrow> (effs, m')
      | (Inl e, effs, m') \<Rightarrow>
          (case disconnect None sid m' of (r, effs', m'') \<Rightarrow> (effs @ effs', m'')))"

fun heartbeat_sends ::
  "(string \<Rightarrow> send_outcome \<times> int) \<Rightarrow> WebSocketMessage \<Rightarrow> string list \<Rightarrow> ConnectionManager
     \<Rightarrow> effect list \<times> ConnectionManager"
where
  "heartbeat_sends env msg [] m = ([], m)"
| "heartbeat_sends env msg (sid # sids) m =
     (case send_heartbeat_to_connection (fst (env sid)) (snd (env sid)) sid msg m of
        (effs, m') \<Rightarrow>
          (case heartbeat_sends env msg sids m' of (effs', m'') \<Rightarrow> (effs @ effs', m'')))"

fun disconnect_each ::
  "string list \<Rightarrow> ConnectionManager \<Rightarrow> (exn + unit) \<times> effect list \<times> ConnectionManager" where
  "disconnect_each [] m = (Inr (), [], m)"
| "disconnect_each (sid # sids) m =
     (case disconnect None sid m of
        (Inl e, effs, m') \<Rightarrow> (Inl e, effs, m')
      | (Inr _, effs, m') \<Rightarrow>
          (case disconnect_each sids m' of (r, effs', m'') \<Rightarrow> (r, effs @ effs', m'')))"

definition stale_connections :: "int \<Rightarrow> int \<Rightarrow> ConnectionManager \<Rightarrow> string list" where
  "stale_connections now timeout m =
     map fst (filter (\<lambda>(sid, info). now - last_activity info > timeout) (connection_info m))"

definition cleanup_stale_connections ::
  "int \<Rightarrow> int \<Rightarrow> ConnectionManager \<Rightarrow> (exn + unit) \<times> effect list \<times> ConnectionManager" where
  "cleanup_stale_connections now timeout m = disconnect_each (stale_connections now timeout m) m"

definition heartbeat_cycle :: "cycle \<Rightarrow> ConnectionManager \<Rightarrow> effect list \<times> ConnectionManager" where
  "heartbeat_cycle c m =
     (case heartbeat_sends (sends c)
             \<lparr>msg_type = HEARTBEAT, content = ''ping'', timestamp = built c, metadata = None\<rparr>
             (map fst (active_connections m)) m of
        (effs, m1) \<Rightarrow>
          (case cleanup_stale_connections (scan c) CONNECTION_TIMEOUT m1 of
             (r, effs', m2) \<Rightarrow> (effs @ effs', m2)))"

text \<open>The loop: rounds are run while there are connections.\<close>

fun heartbeat_loop :: "cycle list \<Rightarrow> ConnectionManager \<Rightarrow> ConnectionManager" where
  "heartbeat_loop [] m = m"
| "heartbeat_loop (c # cs) m =
     (if active_connections m = [] then m else heartbeat_loop cs (snd (heartbeat_cycle c m)))"


text \<open>Registries and surroundings used as concrete inputs.\<close>

definition one_session :: ConnectionManager where
  "one_session =
     \<lparr>active_connections = [(''s1'', 1)],
      connection_info =
        [(''s1'', \<lparr>connected_at = 0, last_activity = 0, message_count = 1, client_info = None\<rparr>)],
      processing_connections = {''s1''},
      heartbeat_task = True\<rparr>"



definition healthy_cycle :: "int \<Rightarrow> cycle" where
  "healthy_cycle t = \<lparr>sends = (\<lambda>sid. (SendOk, t)), built = t, scan = t\<rparr>"


section \<open>Callback handler (callback_handler.py)\<close>
















section \<open>Dispatch loop (main.py)\<close>




text \<open>
  What surrounds one round of the message loop: what \<^verbatim>\<open>receive_text\<close> and the parsing give
  (the peer is gone, the frame is no valid query, or a query), what the engine does, what
  the send of an error message does, what the send in the outermost handler does, and the
  clock reading.
\<close>

datatype received = PeerGone | Malformed string | Parsed UserQuery

record round_env =
  incoming :: received
  engine :: engine_run
  error_send :: send_outcome
  last_send :: send_outcome
  at :: int









section \<open>Properties of the search tool\<close>



lemma body_transient:
  "\<exists>now' srch'. search_async_body (Completed (ProviderRaises e)) dur now srch =
      (Inl (SearchError (''Search failed: '' @ ''DuckDuckGo search failed: '' @ exn_str e)), now', srch')"
  by (auto simp: search_async_body_def Let_def perform_search_def split: prod.splits)

lemma body_timeout:
  "\<exists>now' srch'. search_async_body TimedOut dur now srch =
      (Inl (TimeoutError ''Search timed out after 30 seconds''), now', srch')"
  by (auto simp: search_async_body_def Let_def split: prod.splits)

lemma w1: "wait_exponential 1 4 10 (Suc 0) = 4" by (simp add: wait_exponential_def)
lemma w2: "wait_exponential 1 4 10 (Suc (Suc 0)) = 4" by (simp add: wait_exponential_def)







lemma fails_transient_elim:
  "fails_transient out \<Longrightarrow> \<exists>e. out = Completed (ProviderRaises e)"
  by (cases out rule: fails_transient.cases) auto

lemma three_transient:
  assumes "fails_transient (fst (env 1))" "fails_transient (fst (env 2))"
    "fails_transient (fst (env 3))"
  shows "attempts (search_async env now srch) = 3 \<and> waits (search_async env now srch) = [4, 4]
         \<and> (\<exists>m. result (search_async env now srch) = Inl (RetryError (SearchError m)))"
proof -
  obtain e1 e2 e3 where e: "fst (env (Suc 0)) = Completed (ProviderRaises e1)"
     "fst (env (Suc (Suc 0))) = Completed (ProviderRaises e2)"
     "fst (env (Suc (Suc (Suc 0)))) = Completed (ProviderRaises e3)"
    using assms fails_transient_elim [of "fst (env (Suc 0))"]
      fails_transient_elim [of "fst (env (Suc (Suc 0)))"]
      fails_transient_elim [of "fst (env (Suc (Suc (Suc 0))))"]
    by (auto simp: numeral_2_eq_2 numeral_3_eq_3)
  obtain n1 s1 where b1: "search_async_body (fst (env (Suc 0))) (snd (env (Suc 0))) now srch =
      (Inl (SearchError (''Search failed: '' @ ''DuckDuckGo search failed: '' @ exn_str e1)), n1, s1)"
    using body_transient [of e1 "snd (env (Suc 0))" now srch] e(1) by auto
  obtain n2 s2 where b2: "search_async_body (fst (env (Suc (Suc 0)))) (snd (env (Suc (Suc 0)))) (n1 + 4 * 1000000) s1 =
      (Inl (SearchError (''Search failed: '' @ ''DuckDuckGo search failed: '' @ exn_str e2)), n2, s2)"
    using body_transient [of e2 "snd (env (Suc (Suc 0)))" "n1 + 4 * 1000000" s1] e(2) by auto
  obtain n3 s3 where b3: "search_async_body (fst (env (Suc (Suc (Suc 0))))) (snd (env (Suc (Suc (Suc 0))))) (n2 + 4 * 1000000) s2 =
      (Inl (SearchError (''Search failed: '' @ ''DuckDuckGo search failed: '' @ exn_str e3)), n3, s3)"
    using body_transient [of e3 "snd (env (Suc (Suc (Suc 0))))" "n2 + 4 * 1000000" s2] e(3) by auto
  have r3: "search_async_from (Suc (Suc (Suc 0))) env (n2 + 4 * 1000000) s2 [4, 4] =
      \<lparr>result = Inl (RetryError (SearchError (''Search failed: '' @ ''DuckDuckGo search failed: '' @ exn_str e3))),
       attempts = 3, waits = [4, 4], clock = n3, tool = s3\<rparr>"
    using b3 by (simp add: search_async_from.simps [of "Suc (Suc (Suc 0))"] stop_after_attempt_def)
  have r2: "search_async_from (Suc (Suc 0)) env (n1 + 4 * 1000000) s1 [4] =
      search_async_from (Suc (Suc (Suc 0))) env (n2 + 4 * 1000000) s2 [4, 4]"
    using b2 by (simp add: search_async_from.simps [of "Suc (Suc 0)"] stop_after_attempt_def w2)
  have r1: "search_async_from (Suc 0) env now srch [] =
      search_async_from (Suc (Suc 0)) env (n1 + 4 * 1000000) s1 [4]"
    using b1 by (simp add: search_async_from.simps [of "Suc 0"] stop_after_attempt_def w1)
  show ?thesis unfolding search_async_def One_nat_def r1 r2 r3 by simp
qed

lemma one_timeout:
  assumes "fst (env 1) = TimedOut"
  shows "attempts (search_async env now srch) = 1 \<and> waits (search_async env now srch) = []
         \<and> result (search_async env now srch) = Inl (TimeoutError ''Search timed out after 30 seconds'')"
proof -
  obtain n1 s1 where b1: "search_async_body (fst (env (Suc 0))) (snd (env (Suc 0))) now srch =
      (Inl (TimeoutError ''Search timed out after 30 seconds''), n1, s1)"
    using body_timeout [of "snd (env (Suc 0))" now srch] assms by auto
  show ?thesis using b1 by (simp add: search_async_def search_async_from.simps [of "Suc 0"])
qed


text \<open>
  Claim C5, as the code has it. When the executor call of each of the attempts 1, 2 and 3
  ends in a provider exception (surfacing from the body as \<^verbatim>\<open>SearchError\<close>, a retried
  class), the decorated \<^verbatim>\<open>search_async\<close> makes exactly 3 attempts, sleeps 4 s and 4 s
  between them (a non-decreasing schedule, each wait between the configured \<^verbatim>\<open>min=4\<close> and
  \<^verbatim>\<open>max=10\<close>), and then surfaces the failure as \<^verbatim>\<open>RetryError\<close> around the last
  \<^verbatim>\<open>SearchError\<close>. When the first attempt exceeds the per-call timeout, the custom
  \<^verbatim>\<open>TimeoutError\<close> is raised after exactly 1 attempt and no wait.
\<close>

theorem search_async_retry_schedule:
  "(fails_transient (fst (env 1)) \<and> fails_transient (fst (env 2)) \<and> fails_transient (fst (env 3))
      \<longrightarrow> attempts (search_async env now srch) = 3
          \<and> waits (search_async env now srch) = [4, 4]
          \<and> sorted (waits (search_async env now srch))
          \<and> (\<exists>m. result (search_async env now srch) = Inl (RetryError (SearchError m))))
   \<and> (fst (env 1) = TimedOut
      \<longrightarrow> attempts (search_async env now srch) = 1
          \<and> waits (search_async env now srch) = []
          \<and> result (search_async env now srch)
              = Inl (TimeoutError ''Search timed out after 30 seconds''))"
  using three_transient [of env now srch] one_timeout [of env now srch] by simp

theorem search_async_retry_schedule_witness:
  "fails_transient (fst (always_transient 1)) \<and> fails_transient (fst (always_transient 2))
   \<and> fails_transient (fst (always_transient 3))
   \<and> attempts (search_async always_transient 0 DDGSearchTool_init) = 3
   \<and> waits (search_async always_transient 0 DDGSearchTool_init) = [4, 4]
   \<and> fst (always_timeout 1) = TimedOut
   \<and> attempts (search_async always_timeout 0 DDGSearchTool_init) = 1
   \<and> waits (search_async always_timeout 0 DDGSearchTool_init) = []"
  using search_async_retry_schedule [of always_transient 0 DDGSearchTool_init]
    search_async_retry_schedule [of always_timeout 0 DDGSearchTool_init]
  by (simp add: always_transient_def always_timeout_def)

text \<open>
  Claim C5 as stated asks for strictly increasing delays between consecutive attempts. A
  call whose every attempt is rate limited makes 3 attempts and sleeps 4 s after the first
  and 4 s after the second: \<^verbatim>\<open>min=4\<close> lifts both \<open>2 ^ 0\<close> and \<open>2 ^ 1\<close> to 4.
\<close>

theorem search_async_waits_not_increasing:
  "attempts (search_async always_transient 0 DDGSearchTool_init) = 3
   \<and> waits (search_async always_transient 0 DDGSearchTool_init) = [4, 4]
   \<and> \<not> sorted_wrt (<) (waits (search_async always_transient 0 DDGSearchTool_init))"
  using three_transient [of always_transient 0 DDGSearchTool_init]
  by (simp add: always_transient_def)




section \<open>Properties of the agent service\<close>


lemma py_in_iff: "py_in t s \<longleftrightarrow> (\<exists>pre suf. s = pre @ t @ suf)"
proof (induction s)
  case Nil
  then show ?case by auto
next
  case (Cons c s)
  show ?case
  proof
    assume "py_in t (c # s)"
    then consider "prefix t (c # s)" | "py_in t s" by auto
    then show "\<exists>pre suf. c # s = pre @ t @ suf"
    proof cases
      case 1
      then obtain suf where "c # s = t @ suf" by (auto simp: prefix_def)
      then have "c # s = [] @ t @ suf" by simp
      then show ?thesis by blast
    next
      case 2
      then obtain pre suf where "s = pre @ t @ suf" using Cons.IH by blast
      then have "c # s = (c # pre) @ t @ suf" by simp
      then show ?thesis by blast
    qed
  next
    assume "\<exists>pre suf. c # s = pre @ t @ suf"
    then obtain pre suf where e: "c # s = pre @ t @ suf" by blast
    show "py_in t (c # s)"
    proof (cases pre)
      case Nil
      then have "prefix t (c # s)" using e by (metis append_Nil prefixI)
      then show ?thesis by simp
    next
      case (Cons a pre')
      then have "s = pre' @ t @ suf" using e by simp
      then show ?thesis using Cons.IH by auto
    qed
  qed
qed

lemma validate_rejects:
  assumes "length (py_strip (query q)) < 3 \<or> 1000 < length (query q)
     \<or> list_ex (\<lambda>t. py_in t (py_lower (query q))) forbidden_terms"
  shows "\<exists>m. validate_query q = Inl (ValidationError m)"
  using assms by (auto simp: validate_query_def)

lemma process_query_rejects:
  assumes "validate_query q = Inl (ValidationError m)"
  shows "process_query w q sid svc = (Inl (ValidationError m), [], svc)"
  using assms by (simp add: process_query_def process_query_try_def)

lemma try_classified:
  "process_query w q sid svc = (Inl e, calls, svc') \<Longrightarrow> is_classified e"
  by (auto simp: process_query_def split: prod.splits sum.splits if_splits)






text \<open>
  Claim C10. The content screen tests for a contiguous occurrence in the lowercased text:
  wherever one of the four terms occurs in it, with any text before and after,
  \<^verbatim>\<open>process_query\<close> raises \<^verbatim>\<open>ValidationError\<close> and makes no call towards the engine. The
  witness runs it on "I want a Hackintosh build" and on "a case red as a firecracker".
\<close>

theorem content_screen_is_substring_test:
  assumes "t = ''hack'' \<or> t = ''crack'' \<or> t = ''piracy'' \<or> t = ''illegal''"
    and "py_lower (query q) = pre @ t @ suf"
  shows "\<exists>m. process_query w q sid svc = (Inl (ValidationError m), [], svc)"
proof -
  have "t \<in> set forbidden_terms"
    using assms(1) by (auto simp: forbidden_terms_def)
  then have "list_ex (\<lambda>t. py_in t (py_lower (query q))) forbidden_terms"
    using assms(2) unfolding list_ex_iff py_in_iff by blast
  then obtain m where "validate_query q = Inl (ValidationError m)"
    using validate_rejects by blast
  then show ?thesis using process_query_rejects by blast
qed

theorem content_screen_is_substring_test_witness:
  "py_lower (query hackintosh_query) = ''i want a '' @ ''hack'' @ ''intosh build''
   \<and> (\<exists>m. process_query quiet_run hackintosh_query ''s1'' PCBuildAgentService_init
           = (Inl (ValidationError m), [], PCBuildAgentService_init))
   \<and> py_lower (query firecracker_query) = ''a case red as a fire'' @ ''crack'' @ ''er''
   \<and> (\<exists>m. process_query quiet_run firecracker_query ''s1'' PCBuildAgentService_init
           = (Inl (ValidationError m), [], PCBuildAgentService_init))"
proof -
  have h1: "py_lower (query hackintosh_query) = ''i want a '' @ ''hack'' @ ''intosh build''"
    by code_simp
  have h2: "py_lower (query firecracker_query) = ''a case red as a fire'' @ ''crack'' @ ''er''"
    by code_simp
  show ?thesis
    using h1 h2
      content_screen_is_substring_test [of "''hack''" hackintosh_query "''i want a ''"
        "''intosh build''" quiet_run "''s1''" PCBuildAgentService_init]
      content_screen_is_substring_test [of "''crack''" firecracker_query
        "''a case red as a fire''" "''er''" quiet_run "''s1''" PCBuildAgentService_init]
    by blast
qed

lemma is_classified_iff:
  "is_classified e \<longleftrightarrow> (\<exists>m. e = ValidationError m \<or> e = TimeoutError m \<or> e = AgentError m)"
  by (cases e) auto

lemma execute_agent_other:
  "\<forall>m. e \<noteq> OutputParserException m \<Longrightarrow>
     execute_agent (Raises e) = Inl (AgentError (''Agent execution failed: '' @ exn_str e))"
  by (cases e) auto

text \<open>
  Claim C7. \<^verbatim>\<open>_execute_agent\<close> turns an \<^verbatim>\<open>OutputParserException\<close> of the engine into the dict
  holding the fixed apology, and any other exception into \<^verbatim>\<open>AgentError\<close>. For a valid
  query whose agent was created and whose invocation came back before the timeout,
  \<^verbatim>\<open>process_query\<close> then returns a response whose output is the apology in the first case
  and raises \<^verbatim>\<open>AgentError\<close> in the second. Whatever the engine and the query do, an
  exception leaving \<^verbatim>\<open>process_query\<close> is a \<^verbatim>\<open>ValidationError\<close>, a \<^verbatim>\<open>TimeoutError\<close> or an
  \<^verbatim>\<open>AgentError\<close>.
\<close>

theorem engine_failures_classified:
  "execute_agent (Raises (OutputParserException m)) = Inr (Some (Str apology))
   \<and> ((\<forall>m. e \<noteq> OutputParserException m) \<longrightarrow> (\<exists>m'. execute_agent (Raises e) = Inl (AgentError m')))
   \<and> (validate_query q = Inr () \<and> creation w = Created \<and> \<not> expired w
        \<and> invocation w = Raises (OutputParserException m)
      \<longrightarrow> (\<exists>resp calls svc'. process_query w q sid svc = (Inr resp, calls, svc')
             \<and> response_output resp = apology))
   \<and> (validate_query q = Inr () \<and> creation w = Created \<and> \<not> expired w
        \<and> invocation w = Raises e \<and> (\<forall>m. e \<noteq> OutputParserException m)
      \<longrightarrow> (\<exists>m' calls svc'. process_query w q sid svc = (Inl (AgentError m'), calls, svc')))
   \<and> (process_query w q sid svc = (Inl e', calls, svc')
      \<longrightarrow> (\<exists>m'. e' = ValidationError m' \<or> e' = TimeoutError m' \<or> e' = AgentError m'))"
proof -
  have a: "execute_agent (Raises (OutputParserException m)) = Inr (Some (Str apology))"
    by simp
  have b: "(\<forall>m. e \<noteq> OutputParserException m) \<longrightarrow> (\<exists>m'. execute_agent (Raises e) = Inl (AgentError m'))"
    using execute_agent_other by blast
  have c: "validate_query q = Inr () \<and> creation w = Created \<and> \<not> expired w
        \<and> invocation w = Raises (OutputParserException m)
      \<longrightarrow> (\<exists>resp calls svc'. process_query w q sid svc = (Inr resp, calls, svc')
             \<and> response_output resp = apology)"
    by (simp add: process_query_def process_query_try_def create_agent_def Let_def)
  have d: "validate_query q = Inr () \<and> creation w = Created \<and> \<not> expired w
        \<and> invocation w = Raises e \<and> (\<forall>m. e \<noteq> OutputParserException m)
      \<longrightarrow> (\<exists>m' calls svc'. process_query w q sid svc = (Inl (AgentError m'), calls, svc'))"
    using execute_agent_other [of e]
    by (auto simp add: process_query_def process_query_try_def create_agent_def Let_def)
  have e: "process_query w q sid svc = (Inl e', calls, svc')
      \<longrightarrow> (\<exists>m'. e' = ValidationError m' \<or> e' = TimeoutError m' \<or> e' = AgentError m')"
    using try_classified [of w q sid svc e' calls svc'] is_classified_iff [of e'] by blast
  show ?thesis using a b c d e by blast
qed

theorem engine_failures_classified_witness:
  "validate_query gaming_query = Inr () \<and> creation parse_failure_run = Created
   \<and> \<not> expired parse_failure_run
   \<and> invocation parse_failure_run = Raises (OutputParserException ''Could not parse LLM output'')
   \<and> (\<exists>resp calls svc'. process_query parse_failure_run gaming_query ''s1'' PCBuildAgentService_init
          = (Inr resp, calls, svc') \<and> response_output resp = apology)
   \<and> validate_query gaming_query = Inr () \<and> creation crash_run = Created \<and> \<not> expired crash_run
   \<and> invocation crash_run = Raises (OtherException ''connection reset'')
   \<and> (\<exists>m' calls svc'. process_query crash_run gaming_query ''s1'' PCBuildAgentService_init
          = (Inl (AgentError m'), calls, svc'))"
proof -
  have v: "validate_query gaming_query = Inr ()"
    by (simp add: gaming_query_def validate_query_def py_strip_def py_isspace_def py_lower_def
        py_lower_char_def forbidden_terms_def)
  have p: "creation parse_failure_run = Created \<and> \<not> expired parse_failure_run
     \<and> invocation parse_failure_run = Raises (OutputParserException ''Could not parse LLM output'')"
    by (simp add: parse_failure_run_def quiet_run_def)
  have c: "creation crash_run = Created \<and> \<not> expired crash_run
     \<and> invocation crash_run = Raises (OtherException ''connection reset'')"
    by (simp add: crash_run_def quiet_run_def)
  have n: "\<forall>m. OtherException ''connection reset'' \<noteq> OutputParserException m"
    by simp
  note t1 = engine_failures_classified [where w = parse_failure_run and q = gaming_query
      and m = "''Could not parse LLM output''" and sid = "''s1''" and svc = PCBuildAgentService_init]
  note t2 = engine_failures_classified [where w = crash_run and q = gaming_query
      and e = "OtherException ''connection reset''" and sid = "''s1''"
      and svc = PCBuildAgentService_init]
  have r1: "\<exists>resp calls svc'. process_query parse_failure_run gaming_query ''s1'' PCBuildAgentService_init
          = (Inr resp, calls, svc') \<and> response_output resp = apology"
    using t1 [THEN conjunct2, THEN conjunct2, THEN conjunct1] v p by blast
  have r2: "\<exists>m' calls svc'. process_query crash_run gaming_query ''s1'' PCBuildAgentService_init
          = (Inl (AgentError m'), calls, svc')"
    using t2 [THEN conjunct2, THEN conjunct2, THEN conjunct2, THEN conjunct1] v c n by blast
  show ?thesis using v p c r1 r2 by blast
qed


section \<open>Properties of the connection manager\<close>

lemma map_of_dict_del_same [simp]: "map_of (dict_del k d) k = None"
  by (induction d) (auto simp: dict_del_def)

lemma map_of_dict_del_other [simp]: "k' \<noteq> k \<Longrightarrow> map_of (dict_del k d) k' = map_of d k'"
  by (induction d) (auto simp: dict_del_def)

lemma dict_del_absent: "map_of d k = None \<Longrightarrow> dict_del k d = d"
  by (induction d) (auto simp: dict_del_def split: if_splits)


lemma map_of_dict_set_same [simp]: "map_of (dict_set k v d) k = Some v"
  by (induction d) auto

lemma map_of_dict_set_other [simp]: "k' \<noteq> k \<Longrightarrow> map_of (dict_set k v d) k' = map_of d k'"
  by (induction d) auto



lemma disconnect_absent:
  "map_of (active_connections m) sid = None \<Longrightarrow> disconnect c sid m = (Inr (), [], m)"
  by (simp add: disconnect_def)

lemma disconnect_removes:
  "disconnect c sid m = (r, effs, m') \<Longrightarrow> map_of (active_connections m') sid = None"
  by (auto simp: disconnect_def Let_def split: option.splits if_splits)

lemma disconnect_twice:
  "disconnect c1 sid m = (r, effs, m') \<Longrightarrow> disconnect c2 sid m' = (Inr (), [], m')"
  using disconnect_removes disconnect_absent by blast

lemma disconnect_state:
  assumes "map_of (active_connections m) sid = Some w" "dict_has sid (connection_info m)"
    and "disconnect c sid m = (r, effs, m')"
  shows "r = Inr ()"
    and "active_connections m' = dict_del sid (active_connections m)"
    and "connection_info m' = dict_del sid (connection_info m)"
    and "processing_connections m' = processing_connections m - {sid}"
    and "heartbeat_task m' = (heartbeat_task m \<and> dict_del sid (active_connections m) \<noteq> [])"
    and "effs = close_effect w None c #
           (if dict_del sid (active_connections m) = [] \<and> heartbeat_task m
            then [CancelHeartbeat] else [])"
    and "m' = snd (snd (disconnect None sid m))"
  using assms
  by (auto simp: disconnect_def Let_def split: option.splits if_splits)

lemma disconnect_effective:
  assumes "map_of (active_connections m) sid = Some w" "dict_has sid (connection_info m)"
    and "disconnect c sid m = (r, effs, m')"
  shows "r = Inr ()
    \<and> map_of (active_connections m') sid = None
    \<and> map_of (connection_info m') sid = None
    \<and> sid \<notin> processing_connections m'
    \<and> m' = snd (snd (disconnect None sid m))
    \<and> (CancelHeartbeat \<in> set effs \<longleftrightarrow> active_connections m' = [] \<and> heartbeat_task m)
    \<and> (active_connections m' = [] \<longrightarrow> \<not> heartbeat_task m')
    \<and> close_effect w None c \<in> set effs
    \<and> (\<forall>k. k \<noteq> sid \<longrightarrow> map_of (active_connections m') k = map_of (active_connections m) k
            \<and> map_of (connection_info m') k = map_of (connection_info m) k
            \<and> (k \<in> processing_connections m' \<longleftrightarrow> k \<in> processing_connections m))"
proof -
  note st = disconnect_state [OF assms]
  have "CancelHeartbeat \<noteq> close_effect w None c"
    by (simp add: close_effect_def split: option.splits)
  then show ?thesis
    unfolding st(2-6) using st(1) st(7) by auto
qed


text \<open>
  Claim C8. For every registry, whatever the two closes raise, a second \<^verbatim>\<open>disconnect\<close> of
  the same session returns at once, with no effect and the registry as the first call
  left it. A call on a session that is registered (in the connection map and in the
  connection-info map) returns normally, removes the session from both maps and from
  the processing set, leaves every other session as it was, ends in the same registry
  whether or not the close raised, and cancels the heartbeat task exactly when no
  connection remains (and a task is held); then no task is held any more.
\<close>

theorem disconnect_idempotent:
  "(case disconnect c1 sid m of (r, effs, m1) \<Rightarrow> disconnect c2 sid m1 = (Inr (), [], m1))
   \<and> (map_of (active_connections m) sid = Some w \<and> dict_has sid (connection_info m) \<longrightarrow>
        (case disconnect c1 sid m of
           (r, effs, m') \<Rightarrow>
             r = Inr ()
             \<and> map_of (active_connections m') sid = None
             \<and> map_of (connection_info m') sid = None
             \<and> sid \<notin> processing_connections m'
             \<and> m' = snd (snd (disconnect None sid m))
             \<and> (CancelHeartbeat \<in> set effs \<longleftrightarrow> active_connections m' = [] \<and> heartbeat_task m)
             \<and> (active_connections m' = [] \<longrightarrow> \<not> heartbeat_task m')
             \<and> close_effect w None c1 \<in> set effs
             \<and> (\<forall>k. k \<noteq> sid \<longrightarrow>
                   map_of (active_connections m') k = map_of (active_connections m) k
                   \<and> map_of (connection_info m') k = map_of (connection_info m) k
                   \<and> (k \<in> processing_connections m' \<longleftrightarrow> k \<in> processing_connections m))))"
proof -
  obtain r effs m' where d: "disconnect c1 sid m = (r, effs, m')"
    by (metis prod_cases3)
  have a: "disconnect c2 sid m' = (Inr (), [], m')"
    using disconnect_twice [OF d] .
  have b: "map_of (active_connections m) sid = Some w \<and> dict_has sid (connection_info m) \<longrightarrow>
     r = Inr ()
     \<and> map_of (active_connections m') sid = None
     \<and> map_of (connection_info m') sid = None
     \<and> sid \<notin> processing_connections m'
     \<and> m' = snd (snd (disconnect None sid m))
     \<and> (CancelHeartbeat \<in> set effs \<longleftrightarrow> active_connections m' = [] \<and> heartbeat_task m)
     \<and> (active_connections m' = [] \<longrightarrow> \<not> heartbeat_task m')
     \<and> close_effect w None c1 \<in> set effs
     \<and> (\<forall>k. k \<noteq> sid \<longrightarrow>
           map_of (active_connections m') k = map_of (active_connections m) k
           \<and> map_of (connection_info m') k = map_of (connection_info m) k
           \<and> (k \<in> processing_connections m' \<longleftrightarrow> k \<in> processing_connections m))"
    using disconnect_effective [of m sid w c1 r effs m'] d by blast
  show ?thesis
    unfolding d prod.case using a b by blast
qed

theorem disconnect_idempotent_witness:
  "map_of (active_connections one_session) ''s1'' = Some 1
   \<and> dict_has ''s1'' (connection_info one_session)
   \<and> is_processing one_session ''s1''
   \<and> disconnect (Some (OtherException ''already closed'')) ''s1'' one_session
       = (Inr (), [CloseFailed 1, CancelHeartbeat], ConnectionManager_init)
   \<and> disconnect None ''s1'' ConnectionManager_init = (Inr (), [], ConnectionManager_init)"
proof -
  have h: "map_of (active_connections one_session) ''s1'' = Some 1
     \<and> dict_has ''s1'' (connection_info one_session) \<and> is_processing one_session ''s1''"
    by (simp add: one_session_def dict_has_def is_processing_def)
  have e: "disconnect (Some (OtherException ''already closed'')) ''s1'' one_session
       = (Inr (), [CloseFailed 1, CancelHeartbeat], ConnectionManager_init)"
    by (simp add: disconnect_def one_session_def dict_has_def dict_del_def close_effect_def
        ConnectionManager_init_def)
  show ?thesis
    using h e
      disconnect_idempotent [where ?c1.0 = "Some (OtherException ''already closed'')"
        and sid = "''s1''" and m = one_session and ?c2.0 = None and w = 1]
    by simp
qed









lemma disconnect_active:
  assumes "disconnect c sid m = (r, effs, m')"
  shows "active_connections m' = dict_del sid (active_connections m)"
proof (cases "map_of (active_connections m) sid")
  case None
  then show ?thesis using assms dict_del_absent [of "active_connections m" sid]
    by (simp add: disconnect_def)
next
  case (Some w)
  then show ?thesis using assms
    by (auto simp: disconnect_def Let_def split: if_splits)
qed

lemma disconnect_other:
  "k \<noteq> sid \<Longrightarrow> disconnect c sid m = (r, effs, m') \<Longrightarrow>
     map_of (active_connections m') k = map_of (active_connections m) k"
  by (simp add: disconnect_active)

lemma disconnect_each_keeps:
  "k \<notin> set sids \<Longrightarrow> disconnect_each sids m = (r, effs, m') \<Longrightarrow>
     map_of (active_connections m') k = map_of (active_connections m) k"
proof (induction sids arbitrary: m r effs m')
  case Nil
  then show ?case by simp
next
  case (Cons sid sids)
  obtain r1 e1 m1 where d: "disconnect None sid m = (r1, e1, m1)"
    by (metis prod_cases3)
  have k: "k \<noteq> sid" "k \<notin> set sids" using Cons.prems(1) by auto
  have s1: "map_of (active_connections m1) k = map_of (active_connections m) k"
    using disconnect_other [OF k(1) d] .
  show ?case
  proof (cases r1)
    case (Inl e)
    then show ?thesis using Cons.prems(2) d s1 by simp
  next
    case (Inr u)
    obtain r2 e2 m2 where d2: "disconnect_each sids m1 = (r2, e2, m2)"
      by (metis prod_cases3)
    have "m' = m2" using Cons.prems(2) d d2 Inr by simp
    then show ?thesis using Cons.IH [OF k(2) d2] s1 by simp
  qed
qed

lemma not_stale:
  assumes "distinct (map fst (connection_info m))" "map_of (connection_info m) sid = Some i"
    and "now - last_activity i \<le> timeout"
  shows "sid \<notin> set (stale_connections now timeout m)"
proof
  assume "sid \<in> set (stale_connections now timeout m)"
  then obtain info where i: "(sid, info) \<in> set (connection_info m)"
      "now - last_activity info > timeout"
    by (auto simp: stale_connections_def)
  have "map_of (connection_info m) sid = Some info"
    using assms(1) i(1) by (rule map_of_is_SomeI)
  then show False using assms(2,3) i(2) by simp
qed

lemma cleanup_keeps_fresh:
  assumes "distinct (map fst (connection_info m))" "map_of (connection_info m) sid = Some i"
    and "now - last_activity i \<le> timeout"
  shows "map_of (active_connections (snd (snd (cleanup_stale_connections now timeout m)))) sid
           = map_of (active_connections m) sid"
proof -
  obtain r effs m' where c: "cleanup_stale_connections now timeout m = (r, effs, m')"
    by (metis prod_cases3)
  then have "disconnect_each (stale_connections now timeout m) m = (r, effs, m')"
    by (simp add: cleanup_stale_connections_def)
  then show ?thesis
    using disconnect_each_keeps [OF not_stale [OF assms]] c by simp
qed

lemma healthy_round:
  "heartbeat_cycle (healthy_cycle t)
     (one_session\<lparr>connection_info :=
        [(''s1'', \<lparr>connected_at = 0, last_activity = la, message_count = n, client_info = None\<rparr>)]\<rparr>)
   = ([SendText 1 \<lparr>msg_type = HEARTBEAT, content = ''ping'', timestamp = t, metadata = None\<rparr>],
      one_session\<lparr>connection_info :=
        [(''s1'', \<lparr>connected_at = 0, last_activity = t, message_count = n + 1,
                  client_info = None\<rparr>)]\<rparr>)"
  by (simp add: heartbeat_cycle_def healthy_cycle_def one_session_def
      send_heartbeat_to_connection_def send_to_connection_def cleanup_stale_connections_def
      stale_connections_def CONNECTION_TIMEOUT_def)

lemma healthy_rounds:
  "map fst (active_connections (heartbeat_loop (map healthy_cycle ts)
     (one_session\<lparr>connection_info :=
        [(''s1'', \<lparr>connected_at = 0, last_activity = la, message_count = n, client_info = None\<rparr>)]\<rparr>)))
   = [''s1'']"
proof (induction ts arbitrary: la n)
  case Nil
  then show ?case by (simp add: one_session_def)
next
  case (Cons t ts)
  have ne: "active_connections (one_session\<lparr>connection_info :=
        [(''s1'', \<lparr>connected_at = 0, last_activity = la, message_count = n, client_info = None\<rparr>)]\<rparr>) \<noteq> []"
    by (simp add: one_session_def)
  show ?case
    using Cons.IH [of t "n + 1"] ne by (simp add: healthy_round)
qed



section \<open>Properties of the callback handler\<close>











section \<open>Properties of the dispatch loop\<close>





lemma set_processing_simps [simp]:
  "processing_connections (set_processing sid True m) = insert sid (processing_connections m)"
  "processing_connections (set_processing sid False m) = processing_connections m - {sid}"
  by (simp_all add: set_processing_def)








end
